theory Spec2Isabelle
  imports Complex_Main
begin

section \<open>Common ground: errors and numbers\<close>

text \<open>
  The two modules of the repository, \<^verbatim>\<open>StatInterface/KDEOrigin.py\<close> and
  \<^verbatim>\<open>TrackGenerator/trackSize.py\<close>, are Python 2 code over numpy. Python floats are
  idealised as real numbers: rounding is not modelled. The non-finite values that numpy
  produces where real arithmetic has no answer (a division by zero, the logarithm of a
  non-positive number) are modelled explicitly by the type \<open>xreal\<close> below.

  Every exception of the source is a value of the type \<open>error\<close>, named after the Python
  exception class the code raises. The specification's vocabulary maps onto them as
  follows: \<^emph>\<open>InvalidBandwidth\<close> is the \<open>ValueError\<close> raised by \<^verbatim>\<open>_generatePDF\<close>,
  \<^emph>\<open>UnsupportedKernel\<close> and \<^emph>\<open>StateError\<close> are the \<open>AttributeError\<close> of a failed attribute
  lookup (on the module \<^verbatim>\<open>KPDF\<close>, respectively on \<^verbatim>\<open>self.pdf\<close>), and
  \<^emph>\<open>ShapeMismatch\<close> is the \<open>AssertionError\<close> of a failed \<^verbatim>\<open>assert\<close>.
\<close>

datatype error =
    ValueError string
  | AssertionError
  | AttributeError string
  | ZeroDivisionError
  | OverflowError
  | IndexError
  | LinAlgError

datatype xreal = Num real | PosInf | NegInf | NaN

section \<open>trackSize: radius to maximum winds\<close>

subsection \<open>Scalars, arrays and numpy broadcasting\<close>

text \<open>
  The arguments \<^verbatim>\<open>dp\<close>, \<^verbatim>\<open>lat\<close> and \<^verbatim>\<open>eps\<close> of \<^verbatim>\<open>rmax\<close> are Python numbers or
  one-dimensional numpy arrays (plain Python lists, which the length check of \<^verbatim>\<open>rmax\<close>
  also admits, are not modelled apart from arrays). A binary operation of numpy on two
  arrays works elementwise; arrays of different lengths are combined only when one of them
  has length one, and raise a \<open>ValueError\<close> otherwise.
\<close>

datatype val = Scalar real | Array "real list"

fun is_array :: "val \<Rightarrow> bool" where
  "is_array (Scalar _) = False"
| "is_array (Array _) = True"

fun len :: "val \<Rightarrow> nat" where
  "len (Scalar _) = 1"
| "len (Array xs) = length xs"

fun elem :: "val \<Rightarrow> nat \<Rightarrow> real" where
  "elem (Scalar a) i = a"
| "elem (Array xs) i = xs ! i"

fun broadcast :: "(real \<Rightarrow> real \<Rightarrow> real) \<Rightarrow> val \<Rightarrow> val \<Rightarrow> error + val" where
  "broadcast f (Scalar a) (Scalar b) = Inr (Scalar (f a b))"
| "broadcast f (Scalar a) (Array ys) = Inr (Array (map (f a) ys))"
| "broadcast f (Array xs) (Scalar b) = Inr (Array (map (\<lambda>x. f x b) xs))"
| "broadcast f (Array xs) (Array ys) =
     (if length xs = length ys then Inr (Array (map2 f xs ys))
      else if length xs = 1 then Inr (Array (map (f (hd xs)) ys))
      else if length ys = 1 then Inr (Array (map (\<lambda>x. f x (hd ys)) xs))
      else Inl (ValueError ''operands could not be broadcast together''))"

definition bind_err :: "error + 'a \<Rightarrow> ('a \<Rightarrow> error + 'b) \<Rightarrow> error + 'b" where
  "bind_err m f = (case m of Inl e \<Rightarrow> Inl e | Inr v \<Rightarrow> f v)"

definition np_add :: "val \<Rightarrow> val \<Rightarrow> error + val" where
  "np_add = broadcast (+)"

definition np_mul :: "val \<Rightarrow> val \<Rightarrow> error + val" where
  "np_mul = broadcast (*)"

fun np_exp :: "val \<Rightarrow> val" where
  "np_exp (Scalar a) = Scalar (exp a)"
| "np_exp (Array xs) = Array (map exp xs)"

subsection \<open>rmax\<close>

definition default_coeffs :: "real list" where
  "default_coeffs =
     [4.4726049824584306, -0.04057322103602546,
      0.00031318220949448573, 0.00014553984831170656]"

definition rmax_warnings :: "string list" where
  "rmax_warnings =
     [''Insufficient coefficients for rmw calculation!'', ''Using default values'']"

text \<open>
  The expression of line 58, evaluated in Python's order:
  \<^verbatim>\<open>coeffs[0] + coeffs[1] * dp + coeffs[2] * dp * dp + coeffs[3] * lat * lat + eps\<close>
  is \<^verbatim>\<open>(((c0 + c1*dp) + (c2*dp)*dp) + (c3*lat)*lat) + eps\<close>. It is only evaluated with
  a coefficient list of at least four elements.
\<close>

definition rmax_expr :: "val \<Rightarrow> val \<Rightarrow> val \<Rightarrow> real list \<Rightarrow> error + val" where
  "rmax_expr dp lat eps coeffs =
     bind_err (np_mul (Scalar (coeffs ! 1)) dp) (\<lambda>t1.
     bind_err (np_add (Scalar (coeffs ! 0)) t1) (\<lambda>s1.
     bind_err (np_mul (Scalar (coeffs ! 2)) dp) (\<lambda>t2a.
     bind_err (np_mul t2a dp) (\<lambda>t2.
     bind_err (np_add s1 t2) (\<lambda>s2.
     bind_err (np_mul (Scalar (coeffs ! 3)) lat) (\<lambda>t3a.
     bind_err (np_mul t3a lat) (\<lambda>t3.
     bind_err (np_add s2 t3) (\<lambda>s3.
     bind_err (np_add s3 eps) (\<lambda>s4.
     Inr (np_exp s4))))))))))"

text \<open>
  \<^verbatim>\<open>rmax(dp, lat, eps, coeffs)\<close> returns the messages it hands to the logger together
  with its result or exception.
\<close>

definition rmax :: "val \<Rightarrow> val \<Rightarrow> val \<Rightarrow> real list \<Rightarrow> string list \<times> (error + val)" where
  "rmax dp lat eps coeffs =
     (let (logged, coeffs') =
            (if length coeffs < 4 then (rmax_warnings, default_coeffs) else ([], coeffs))
      in if is_array dp \<and> is_array lat \<and> len dp \<noteq> len lat
         then (logged, Inl AssertionError)
         else (logged, rmax_expr dp lat eps coeffs'))"

subsection \<open>fitRmax\<close>

text \<open>
  \<^verbatim>\<open>fitRmax(rmw, dp, lat)\<close> takes three numpy arrays. The least-squares solver
  (\<^verbatim>\<open>sm.OLS(y, X).fit()\<close> of statsmodels) and the normal fit of the residuals
  (\<^verbatim>\<open>scipy.stats.norm.fit\<close>) are library routines outside the repository: the model
  takes both as parameters. The solver returns the pair of \<^verbatim>\<open>results.params\<close> and
  \<^verbatim>\<open>results.resid\<close>, or an exception; the normal fit returns the pair of location and
  scale.
\<close>

type_synonym ols_solver = "xreal list \<Rightarrow> real list list \<Rightarrow> error + (xreal list \<times> xreal list)"

type_synonym normal_fit = "xreal list \<Rightarrow> xreal \<times> xreal"

definition np_log :: "real \<Rightarrow> xreal" where
  "np_log r = (if 0 < r then Num (ln r) else if r = 0 then NegInf else NaN)"

definition column_stack :: "real list \<Rightarrow> real list \<Rightarrow> real list \<Rightarrow> real list list" where
  "column_stack a b c = map (\<lambda>(u, v, w). [u, v, w]) (zip a (zip b c))"

definition add_constant :: "real list list \<Rightarrow> real list list" where
  \<comment> \<open>\<^verbatim>\<open>sm.add_constant\<close>: a column of ones in front, the layout \<^verbatim>\<open>[1, dp, dp*dp, lat*lat]\<close>
      that the coefficient order of \<^verbatim>\<open>rmax\<close> presupposes.\<close>
  "add_constant X = map (\<lambda>row. 1 # row) X"

definition fitRmax ::
  "ols_solver \<Rightarrow> normal_fit \<Rightarrow> real list \<Rightarrow> real list \<Rightarrow> real list \<Rightarrow> error + xreal list" where
  "fitRmax ols nfit rmw dp lat =
     (if length dp \<noteq> length lat then Inl AssertionError
      else if length rmw \<noteq> length dp then Inl AssertionError
      else
        let X = add_constant (column_stack dp (map2 (*) dp dp) (map2 (*) lat lat));
            y = map np_log rmw
        in case ols y X of
             Inl e \<Rightarrow> Inl e
           | Inr (params, r) \<Rightarrow> Inr (params @ [snd (nfit r)]))"

section \<open>KDEOrigin: the density of cyclone origins\<close>

subsection \<open>numpy and Python primitives\<close>

text \<open>
  \<^verbatim>\<open>arange(start, stop, step)\<close> has \<open>\<lceil>(stop - start) / step\<rceil>\<close> elements (none when this
  is not positive), the \<open>i\<close>-th being \<open>start + i * step\<close>; a zero step is rejected.
\<close>

definition arange :: "real \<Rightarrow> real \<Rightarrow> real \<Rightarrow> error + real list" where
  "arange start stop step =
     (if step = 0 then Inl ZeroDivisionError
      else Inr (map (\<lambda>i. start + real i * step) [0..<nat \<lceil>(stop - start) / step\<rceil>]))"

text \<open>Division of floats in numpy does not raise: a zero divisor gives \<open>nan\<close> or \<open>\<plusminus>inf\<close>.\<close>

definition np_div :: "real \<Rightarrow> real \<Rightarrow> xreal" where
  "np_div a b =
     (if b \<noteq> 0 then Num (a / b)
      else if a = 0 then NaN else if 0 < a then PosInf else NegInf)"

fun xmax :: "xreal \<Rightarrow> xreal \<Rightarrow> xreal" where
  "xmax NaN _ = NaN"
| "xmax _ NaN = NaN"
| "xmax PosInf _ = PosInf"
| "xmax _ PosInf = PosInf"
| "xmax NegInf b = b"
| "xmax a NegInf = a"
| "xmax (Num a) (Num b) = Num (max a b)"

definition np_max :: "xreal list \<Rightarrow> error + xreal" where
  "np_max vs =
     (case vs of
        [] \<Rightarrow> Inl (ValueError ''zero-size array to reduction operation maximum which has no identity'')
      | v # ws \<Rightarrow> Inr (fold xmax ws v))"

text \<open>
  \<^verbatim>\<open>pdf.shape = (pdf.shape[0]/self.x.size, self.x.size)\<close> cuts a flat array into rows
  of \<open>n\<close> elements. The division is Python 2's integer division and raises on \<open>n = 0\<close>;
  numpy refuses a shape that changes the number of elements.
\<close>

definition reshape :: "'a list \<Rightarrow> nat \<Rightarrow> error + 'a list list" where
  "reshape v n =
     (if n = 0 then Inl ZeroDivisionError
      else if (length v div n) * n \<noteq> length v
      then Inl (ValueError ''total size of new array must be unchanged'')
      else Inr (map (\<lambda>r. take n (drop (r * n) v)) [0..<length v div n]))"

definition transpose_arr :: "'a list list \<Rightarrow> nat \<Rightarrow> 'a list list" where
  \<comment> \<open>the transpose of an array with \<open>n\<close> columns\<close>
  "transpose_arr rows n = map (\<lambda>j. map (\<lambda>r. r ! j) rows) [0..<n]"

text \<open>
  \<^verbatim>\<open>"%d" % v\<close> on a float prints the float truncated towards zero, in decimal.
\<close>

definition digit :: "nat \<Rightarrow> char" where
  "digit n = ''0123456789'' ! n"

fun digits :: "nat \<Rightarrow> string" where
  "digits n = (if n < 10 then [digit n] else digits (n div 10) @ [digit (n mod 10)])"

definition fmt_d :: "real \<Rightarrow> string" where
  "fmt_d v =
     (let i = (if v < 0 then \<lceil>v\<rceil> else \<lfloor>v\<rfloor>)
      in if i < 0 then CHR ''-'' # digits (nat (- i)) else digits (nat i))"

subsection \<open>The module KPDF\<close>

text \<open>
  \<^verbatim>\<open>Utilities.KPDF\<close> is a compiled extension of the repository whose source is not
  at hand. Its kernel routines \<^verbatim>\<open>MPDF<kdeType>\<close>, found by name with \<^verbatim>\<open>getattr\<close>,
  and \<^verbatim>\<open>MPDFOptimumBandwidth\<close> are parameters of the model: \<open>attrs\<close> maps the names
  that \<^verbatim>\<open>getattr\<close> finds to the kernel routines they name. A kernel routine takes the
  observations, the evaluation points and the bandwidth, and returns an array of values,
  one for each evaluation point when it works as the specification describes.
\<close>

type_synonym kernel = "real list list \<Rightarrow> (real \<times> real) list \<Rightarrow> real \<Rightarrow> real list"

record KPDF_module =
  attrs :: "string \<rightharpoonup> kernel"
  MPDFOptimumBandwidth :: "real list list \<Rightarrow> real"

definition MPDF2DGrid2Array :: "real list \<Rightarrow> real list \<Rightarrow> (real \<times> real) list" where
  \<comment> \<open>Modelled from the spec: \<^verbatim>\<open>KPDF.MPDF2DGrid2Array\<close> is missing from the sources. The
      spec has it build the cartesian product of the coordinate sequences, one evaluation
      point for each grid cell, in the row-major (y-count, x-count) layout that the
      reshaping in \<^verbatim>\<open>generateKDE\<close> relies on.\<close>
  "MPDF2DGrid2Array xs ys = concat (map (\<lambda>yv. map (\<lambda>xv. (xv, yv)) xs) ys)"

subsection \<open>The class KDEOrigin\<close>

record gridLimit =
  xMin :: real
  xMax :: real
  yMin :: real
  yMax :: real

text \<open>
  The attributes of an instance. \<^verbatim>\<open>self.pdf\<close>, \<^verbatim>\<open>self.cz\<close>, \<^verbatim>\<open>self.outputPath\<close> and
  \<^verbatim>\<open>self.processPath\<close> do not exist until they are assigned: reading one before raises
  an \<open>AttributeError\<close>. The logger and the progress bar are not modelled.
\<close>

type_synonym grid = "xreal list list"

record KDEOrigin =
  self_configFile :: string
  self_x :: "real list"
  self_y :: "real list"
  self_kdeType :: string
  self_kdeStep :: real
  self_outputPath :: "string option"
  self_processPath :: "string option"
  self_lonLat :: "real list list"
  self_bw :: real
  self_pdf :: "grid option"
  self_cz :: "grid option"

text \<open>
  What the constructor reads from outside when no observations are passed: the output
  path of the configuration file and the table loaded from \<^verbatim>\<open>init_lon_lat\<close>.
\<close>

record environment =
  cnf_Output_Path :: string
  init_lon_lat :: "real list list"

definition os_path_join :: "string \<Rightarrow> string \<Rightarrow> string" where
  \<comment> \<open>\<^verbatim>\<open>os.path.join(a, b)\<close> for a relative \<open>b\<close>\<close>
  "os_path_join a b =
     (if a = [] then b else if last a = CHR ''/'' then a @ b else a @ ''/'' @ b)"

definition KDEOrigin_init ::
  "KPDF_module \<Rightarrow> environment \<Rightarrow> string \<Rightarrow> string \<Rightarrow> gridLimit \<Rightarrow> real \<Rightarrow>
   real list list option \<Rightarrow> error + KDEOrigin" where
  "KDEOrigin_init KPDF env configFile kdeType gl kdeStep lonLat =
     bind_err (arange (xMin gl) (xMax gl) kdeStep) (\<lambda>x.
     bind_err (arange (yMax gl) (yMin gl) (- kdeStep)) (\<lambda>y.
       let (outp, procp, ll) =
             (case lonLat of
                None \<Rightarrow> (Some (cnf_Output_Path env),
                         Some (os_path_join (cnf_Output_Path env) ''process''),
                         map (take 2) (init_lon_lat env))
              | Some obs \<Rightarrow> (None, None, map (take 2) obs))
       in Inr \<lparr> self_configFile = configFile, self_x = x, self_y = y,
                self_kdeType = kdeType, self_kdeStep = kdeStep,
                self_outputPath = outp, self_processPath = procp,
                self_lonLat = ll, self_bw = MPDFOptimumBandwidth KPDF ll,
                self_pdf = None, self_cz = None \<rparr>))"

definition bw_message :: "real \<Rightarrow> string" where
  "bw_message bw = ''bw = '' @ fmt_d bw @ ''. Bandwidth cannot be negative or zero''"

definition generatePDF ::
  "KPDF_module \<Rightarrow> KDEOrigin \<Rightarrow> (real \<times> real) list \<Rightarrow> real \<Rightarrow> error + real list" where
  "generatePDF KPDF self grid bw =
     (if bw \<le> 0 then Inl (ValueError (bw_message bw))
      else case attrs KPDF (''MPDF'' @ self_kdeType self) of
             None \<Rightarrow> Inl (AttributeError (''MPDF'' @ self_kdeType self))
           | Some kdeMethod \<Rightarrow> Inr (kdeMethod (self_lonLat self) grid bw))"

subsection \<open>Contour levels\<close>

definition min_lvls :: real where
  "min_lvls = 6.0"

definition lvls_options :: "real list" where
  "lvls_options = [1.0, 0.5, 0.25, 0.2, 0.1]"

text \<open>
  Lines 219 to 225 of \<^verbatim>\<open>generateKDE\<close>, from the maximum of the grid to the exponent, the
  step and the levels. \<^verbatim>\<open>int(numpy.floor(numpy.log10(pdfMax)))\<close> raises on a maximum
  that is not a positive number: the logarithm is then \<open>nan\<close> or infinite.
\<close>

definition contour_levels :: "xreal \<Rightarrow> error + (int \<times> real \<times> real list)" where
  "contour_levels pdfMax =
     (case pdfMax of
        NaN \<Rightarrow> Inl (ValueError ''cannot convert float NaN to integer'')
      | NegInf \<Rightarrow> Inl (ValueError ''cannot convert float NaN to integer'')
      | PosInf \<Rightarrow> Inl OverflowError
      | Num m \<Rightarrow>
          (if m < 0 then Inl (ValueError ''cannot convert float NaN to integer'')
           else if m = 0 then Inl OverflowError
           else
             (let exponent = \<lfloor>log 10 m\<rfloor>;
                  significand = m * 10 powi (- exponent)
              in (case find (\<lambda>opt. significand / opt > min_lvls) lvls_options of
                    None \<Rightarrow> Inl IndexError
                  | Some lvl_step \<Rightarrow>
                      bind_err (arange 0 m (lvl_step * 10 powi exponent)) (\<lambda>lvls.
                      Inr (exponent, lvl_step, lvls))))))"

subsection \<open>generateKDE and generateCdf\<close>

text \<open>
  Both methods return the instance as they leave it, also when they raise, together
  with the exception or the returned value (\<open>None\<close> when the result is saved). Writing
  files and plotting are left to collaborators and have no effect on the instance.
  \<^verbatim>\<open>stats.cdf2d\<close> is a routine of the repository whose source is not at hand; it is a
  parameter.
\<close>

definition truthy :: "real option \<Rightarrow> bool" where
  "truthy bw = (case bw of None \<Rightarrow> False | Some b \<Rightarrow> b \<noteq> 0)"

definition generateKDE ::
  "KPDF_module \<Rightarrow> KDEOrigin \<Rightarrow> real option \<Rightarrow> bool \<Rightarrow>
   KDEOrigin \<times> (error + (real list \<times> real list \<times> grid) option)" where
  "generateKDE KPDF self bw save =
     (let grid2d = MPDF2DGrid2Array (self_x self) (self_y self);
          self1 = (if truthy bw then self\<lparr>self_bw := the bw\<rparr> else self)
      in (case generatePDF KPDF self1 grid2d (self_bw self1) of
            Inl e \<Rightarrow> (self1, Inl e)
          | Inr raw \<Rightarrow>
              (let pdf = map (\<lambda>v. np_div v (sum_list raw)) raw
               in (case reshape pdf (length (self_x self1)) of
                     Inl e \<Rightarrow> (self1, Inl e)
                   | Inr pdf2 \<Rightarrow>
                       (let pdfT = transpose_arr pdf2 (length (self_x self1));
                            self2 = self1\<lparr>self_pdf := Some pdfT\<rparr>
                        in if save then
                             (case self_processPath self2 of
                                None \<Rightarrow> (self2, Inl (AttributeError ''processPath''))
                              | Some _ \<Rightarrow>
                                  (self2,
                                   bind_err (np_max (concat pdf2)) (\<lambda>pdfMax.
                                   bind_err (contour_levels pdfMax) (\<lambda>_.
                                   (case self_outputPath self2 of
                                      None \<Rightarrow> Inl (AttributeError ''outputPath'')
                                    | Some _ \<Rightarrow> Inr None)))))
                           else (self2, Inr (Some (self_x self2, self_y self2, pdfT))))))))"

definition generateCdf ::
  "(real list \<Rightarrow> real list \<Rightarrow> grid \<Rightarrow> grid) \<Rightarrow> KDEOrigin \<Rightarrow> bool \<Rightarrow>
   KDEOrigin \<times> (error + grid option)" where
  "generateCdf cdf2d self save =
     (case self_pdf self of
        None \<Rightarrow> (self, Inl (AttributeError ''pdf''))
      | Some pdf \<Rightarrow>
          let self1 = self\<lparr>self_cz := Some (cdf2d (self_x self) (self_y self) pdf)\<rparr>
          in if save then
               (case self_processPath self1 of
                  None \<Rightarrow> (self1, Inl (AttributeError ''processPath''))
                | Some _ \<Rightarrow> (self1, Inr None))
             else (self1, Inr (self_cz self1)))"

section \<open>Reference definitions for the properties\<close>

subsection \<open>The closed form of rmax\<close>

text \<open>
  The formula of the specification, \<open>Rmax = exp (a + b dp + c dp\<^sup>2 + d lat\<^sup>2 + eps)\<close>, and
  its elementwise application: scalars are used at every index, the result is an array
  as soon as one argument is. Arguments are compatible when all arrays among them have
  the same length.
\<close>

definition rmax_formula :: "real \<Rightarrow> real \<Rightarrow> real \<Rightarrow> real \<Rightarrow> real \<Rightarrow> real \<Rightarrow> real \<Rightarrow> real" where
  "rmax_formula a b c d dp lat eps = exp (a + b * dp + c * dp\<^sup>2 + d * lat\<^sup>2 + eps)"

definition compatible :: "val \<Rightarrow> val \<Rightarrow> val \<Rightarrow> bool" where
  "compatible dp lat eps \<longleftrightarrow>
     (\<forall>u \<in> {dp, lat, eps}. \<forall>v \<in> {dp, lat, eps}. is_array u \<and> is_array v \<longrightarrow> len u = len v)"

definition elementwise :: "(real \<Rightarrow> real \<Rightarrow> real \<Rightarrow> real) \<Rightarrow> val \<Rightarrow> val \<Rightarrow> val \<Rightarrow> val" where
  "elementwise f dp lat eps =
     (if is_array dp \<or> is_array lat \<or> is_array eps
      then Array (map (\<lambda>i. f (elem dp i) (elem lat i) (elem eps i))
                   [0..<(if is_array dp then len dp else if is_array lat then len lat else len eps)])
      else Scalar (f (elem dp 0) (elem lat 0) (elem eps 0)))"

definition tab :: "nat \<Rightarrow> (nat \<Rightarrow> real) \<Rightarrow> val" where
  \<comment> \<open>the array of the first \<open>n\<close> values of \<open>g\<close>\<close>
  "tab n g = Array (map g [0..<n])"

subsection \<open>The regression\<close>

text \<open>
  The design matrix of the specification: one row \<open>[1, dp, dp\<^sup>2, lat\<^sup>2]\<close> for each
  observation.
\<close>

definition design_matrix :: "real list \<Rightarrow> real list \<Rightarrow> real list list" where
  "design_matrix dp lat = map2 (\<lambda>d l. [1, d, d * d, l * l]) dp lat"

text \<open>
  Library routines to run \<^verbatim>\<open>fitRmax\<close> on an example. For a single finite observation
  \<open>v\<close> with the row \<open>x\<close>, the minimum-norm least-squares solution, which is what the
  pseudo-inverse of statsmodels computes, is \<open>x v / (x \<cdot> x)\<close>; the solver below declines
  every other system. The normal fit is the maximum-likelihood one: the mean and the
  population standard deviation of the sample.
\<close>

definition dot :: "real list \<Rightarrow> real list \<Rightarrow> real" where
  "dot u v = sum_list (map2 (*) u v)"

definition ols_one_row :: ols_solver where
  "ols_one_row y X =
     (case (y, X) of
        ([Num v], [row]) \<Rightarrow>
          (let beta = (if dot row row = 0 then map (\<lambda>_. 0) row
                       else map (\<lambda>c. c * v / dot row row) row)
           in Inr (map Num beta, [Num (v - dot row beta)]))
      | _ \<Rightarrow> Inl LinAlgError)"

fun finite_vals :: "xreal list \<Rightarrow> real list option" where
  "finite_vals [] = Some []"
| "finite_vals (Num v # vs) = map_option ((#) v) (finite_vals vs)"
| "finite_vals (_ # vs) = None"

definition norm_fit_mle :: normal_fit where
  "norm_fit_mle r =
     (case finite_vals r of
        None \<Rightarrow> (NaN, NaN)
      | Some [] \<Rightarrow> (NaN, NaN)
      | Some vs \<Rightarrow>
          (let mu = sum_list vs / real (length vs)
           in (Num mu, Num (sqrt (sum_list (map (\<lambda>v. (v - mu)\<^sup>2) vs) / real (length vs))))))"

subsection \<open>The contour step\<close>

text \<open>
  The step that the search through \<^verbatim>\<open>lvls_options\<close> arrives at, as a function of the
  significand.
\<close>

definition pick :: "real \<Rightarrow> real" where
  "pick s = (if 6 < s then 1 else if 3 < s then 1 / 2 else if 3 / 2 < s then 1 / 4
             else if 6 / 5 < s then 1 / 5 else 1 / 10)"

subsection \<open>Sums of grids\<close>

text \<open>Addition of floats with the non-finite values, and the sum of an array.\<close>

fun xadd :: "xreal \<Rightarrow> xreal \<Rightarrow> xreal" where
  "xadd (Num a) (Num b) = Num (a + b)"
| "xadd NaN _ = NaN"
| "xadd _ NaN = NaN"
| "xadd PosInf NegInf = NaN"
| "xadd NegInf PosInf = NaN"
| "xadd PosInf _ = PosInf"
| "xadd _ PosInf = PosInf"
| "xadd NegInf _ = NegInf"
| "xadd _ NegInf = NegInf"

fun xval :: "xreal \<Rightarrow> real" where
  "xval (Num a) = a"
| "xval _ = 0"

definition np_sum :: "xreal list \<Rightarrow> xreal" where
  "np_sum vs = foldl xadd (Num 0) vs"

definition nonneg :: "xreal \<Rightarrow> bool" where
  "nonneg v = (case v of Num a \<Rightarrow> 0 \<le> a | _ \<Rightarrow> False)"

text \<open>The bandwidth that \<^verbatim>\<open>generateKDE\<close> hands to the kernel routine.\<close>

definition effective_bw :: "KDEOrigin \<Rightarrow> real option \<Rightarrow> real" where
  "effective_bw self bw = (if truthy bw then the bw else self_bw self)"

subsection \<open>Sequences of method calls\<close>

text \<open>
  A caller may go on using an instance after a method has raised; \<open>invoke\<close> gives the
  instance as a call leaves it, whether it returned or raised.
\<close>

datatype method_call = CallGenerateKDE "real option" bool | CallGenerateCdf bool

fun invoke ::
  "KPDF_module \<Rightarrow> (real list \<Rightarrow> real list \<Rightarrow> grid \<Rightarrow> grid) \<Rightarrow> KDEOrigin \<Rightarrow> method_call
   \<Rightarrow> KDEOrigin" where
  "invoke KPDF cdf2d self (CallGenerateKDE bw save) = fst (generateKDE KPDF self bw save)"
| "invoke KPDF cdf2d self (CallGenerateCdf save) = fst (generateCdf cdf2d self save)"

fun no_override :: "method_call \<Rightarrow> bool" where
  "no_override (CallGenerateKDE bw save) = (\<not> truthy bw)"
| "no_override (CallGenerateCdf save) = True"

subsection \<open>An example model\<close>

text \<open>
  A kernel routine for the examples: the box kernel counts the observations within the
  bandwidth of the evaluation point, in both coordinates. The example module knows this
  routine under the name \<^verbatim>\<open>MPDFBox\<close> and takes one half for the optimum bandwidth.
\<close>

definition MPDFBox :: kernel where
  "MPDFBox obs grid bw =
     map (\<lambda>(gx, gy). real (length (filter
            (\<lambda>ob. case ob of lon # lat # _ \<Rightarrow> \<bar>lon - gx\<bar> \<le> bw \<and> \<bar>lat - gy\<bar> \<le> bw
                            | _ \<Rightarrow> False) obs))) grid"

definition example_KPDF :: KPDF_module where
  "example_KPDF =
     \<lparr> attrs = [''MPDFBox'' \<mapsto> MPDFBox], MPDFOptimumBandwidth = (\<lambda>_. 1 / 2) \<rparr>"

definition example_env :: environment where
  "example_env = \<lparr> cnf_Output_Path = ''output'', init_lon_lat = [[0, 1], [1, 1], [2, 2]] \<rparr>"

definition example_limits :: gridLimit where
  "example_limits = \<lparr> xMin = 0, xMax = 3, yMin = 0, yMax = 2 \<rparr>"

definition example_model :: KDEOrigin where
  "example_model =
     \<lparr> self_configFile = ''tcrm.ini'', self_x = [0, 1, 2], self_y = [2, 1],
       self_kdeType = ''Box'', self_kdeStep = 1,
       self_outputPath = None, self_processPath = None,
       self_lonLat = [[0, 1], [1, 1], [2, 2]], self_bw = 1 / 2,
       self_pdf = None, self_cz = None \<rparr>"

section \<open>Properties of trackSize\<close>

lemma bind_err_Inr [simp]: "bind_err (Inr v) f = f v"
  by (simp add: bind_err_def)

lemma bind_err_Inl [simp]: "bind_err (Inl e) f = Inl e"
  by (simp add: bind_err_def)

subsection \<open>Broadcasting on tabulated arrays\<close>

lemma Array_tab_len: "length xs = n \<Longrightarrow> Array xs = tab n ((!) xs)"
  by (auto simp: tab_def map_nth)

lemma broadcast_tab_tab:
  "broadcast f (tab n g) (tab n h) = Inr (tab n (\<lambda>i. f (g i) (h i)))"
  by (simp add: tab_def zip_map_map zip_same_conv_map)

lemma broadcast_Scalar_tab:
  "broadcast f (Scalar a) (tab n h) = Inr (tab n (\<lambda>i. f a (h i)))"
  by (simp add: tab_def)

lemma broadcast_tab_Scalar:
  "broadcast f (tab n g) (Scalar b) = Inr (tab n (\<lambda>i. f (g i) b))"
  by (simp add: tab_def)

lemma np_exp_tab: "np_exp (tab n g) = tab n (\<lambda>i. exp (g i))"
  by (simp add: tab_def)

lemmas tab_simps = broadcast_tab_tab broadcast_Scalar_tab broadcast_tab_Scalar np_exp_tab

lemma rmax_expr_tab:
  "rmax_expr (Scalar p) (Scalar l) (Scalar e) [a, b, c, d]
     = Inr (Scalar (rmax_formula a b c d p l e))"
  "rmax_expr (Scalar p) (Scalar l) (tab n ev) [a, b, c, d]
     = Inr (tab n (\<lambda>i. rmax_formula a b c d p l (ev i)))"
  "rmax_expr (Scalar p) (tab n lv) (Scalar e) [a, b, c, d]
     = Inr (tab n (\<lambda>i. rmax_formula a b c d p (lv i) e))"
  "rmax_expr (Scalar p) (tab n lv) (tab n ev) [a, b, c, d]
     = Inr (tab n (\<lambda>i. rmax_formula a b c d p (lv i) (ev i)))"
  "rmax_expr (tab n pv) (Scalar l) (Scalar e) [a, b, c, d]
     = Inr (tab n (\<lambda>i. rmax_formula a b c d (pv i) l e))"
  "rmax_expr (tab n pv) (Scalar l) (tab n ev) [a, b, c, d]
     = Inr (tab n (\<lambda>i. rmax_formula a b c d (pv i) l (ev i)))"
  "rmax_expr (tab n pv) (tab n lv) (Scalar e) [a, b, c, d]
     = Inr (tab n (\<lambda>i. rmax_formula a b c d (pv i) (lv i) e))"
  "rmax_expr (tab n pv) (tab n lv) (tab n ev) [a, b, c, d]
     = Inr (tab n (\<lambda>i. rmax_formula a b c d (pv i) (lv i) (ev i)))"
  by (simp_all add: rmax_expr_def np_add_def np_mul_def tab_simps rmax_formula_def
        power2_eq_square mult.assoc)

lemma elementwise_tab:
  "elementwise f (Scalar p) (Scalar l) (Scalar e) = Scalar (f p l e)"
  "elementwise f (Scalar p) (Scalar l) (Array es) = tab (length es) (\<lambda>i. f p l (es ! i))"
  "elementwise f (Scalar p) (Array ls) (Scalar e) = tab (length ls) (\<lambda>i. f p (ls ! i) e)"
  "elementwise f (Scalar p) (Array ls) (Array es)
     = tab (length ls) (\<lambda>i. f p (ls ! i) (es ! i))"
  "elementwise f (Array ps) (Scalar l) (Scalar e) = tab (length ps) (\<lambda>i. f (ps ! i) l e)"
  "elementwise f (Array ps) (Scalar l) (Array es)
     = tab (length ps) (\<lambda>i. f (ps ! i) l (es ! i))"
  "elementwise f (Array ps) (Array ls) (Scalar e)
     = tab (length ps) (\<lambda>i. f (ps ! i) (ls ! i) e)"
  "elementwise f (Array ps) (Array ls) (Array es)
     = tab (length ps) (\<lambda>i. f (ps ! i) (ls ! i) (es ! i))"
  by (simp_all add: elementwise_def tab_def)

subsection \<open>The expression of rmax, by the shape of its arguments\<close>

lemma rmax_expr_one_array:
  "rmax_expr (Scalar p) (Scalar l) (Scalar e) [a, b, c, d]
     = Inr (elementwise (rmax_formula a b c d) (Scalar p) (Scalar l) (Scalar e))"
  "rmax_expr (Scalar p) (Scalar l) (Array es) [a, b, c, d]
     = Inr (elementwise (rmax_formula a b c d) (Scalar p) (Scalar l) (Array es))"
  "rmax_expr (Scalar p) (Array ls) (Scalar e) [a, b, c, d]
     = Inr (elementwise (rmax_formula a b c d) (Scalar p) (Array ls) (Scalar e))"
  "rmax_expr (Array ps) (Scalar l) (Scalar e) [a, b, c, d]
     = Inr (elementwise (rmax_formula a b c d) (Array ps) (Scalar l) (Scalar e))"
  unfolding elementwise_tab
  by (rule rmax_expr_tab, (subst Array_tab_len [OF refl], rule rmax_expr_tab)+)

lemma rmax_expr_two_arrays:
  "length es = length ls \<Longrightarrow> rmax_expr (Scalar p) (Array ls) (Array es) [a, b, c, d]
     = Inr (elementwise (rmax_formula a b c d) (Scalar p) (Array ls) (Array es))"
  "length es = length ps \<Longrightarrow> rmax_expr (Array ps) (Scalar l) (Array es) [a, b, c, d]
     = Inr (elementwise (rmax_formula a b c d) (Array ps) (Scalar l) (Array es))"
  "length ls = length ps \<Longrightarrow> rmax_expr (Array ps) (Array ls) (Scalar e) [a, b, c, d]
     = Inr (elementwise (rmax_formula a b c d) (Array ps) (Array ls) (Scalar e))"
  unfolding elementwise_tab
  by (subst Array_tab_len, assumption, subst Array_tab_len [OF refl], rule rmax_expr_tab)+

lemma rmax_expr_three_arrays:
  "length ls = length ps \<Longrightarrow> length es = length ps \<Longrightarrow>
   rmax_expr (Array ps) (Array ls) (Array es) [a, b, c, d]
     = Inr (elementwise (rmax_formula a b c d) (Array ps) (Array ls) (Array es))"
  unfolding elementwise_tab
  apply (subst Array_tab_len [of es "length ps"], assumption)
  apply (subst Array_tab_len [of ls "length ps"], assumption)
  apply (subst Array_tab_len [of ps, OF refl])
  apply (rule rmax_expr_tab)
  done

lemma compatible_simps:
  "compatible (Scalar p) (Array ls) (Array es) \<longleftrightarrow> length es = length ls"
  "compatible (Array ps) (Scalar l) (Array es) \<longleftrightarrow> length es = length ps"
  "compatible (Array ps) (Array ls) (Scalar e) \<longleftrightarrow> length ls = length ps"
  "compatible (Array ps) (Array ls) (Array es)
     \<longleftrightarrow> length ls = length ps \<and> length es = length ps"
  by (auto simp: compatible_def)

lemma rmax_expr_elementwise:
  assumes "compatible dp lat eps"
  shows "rmax_expr dp lat eps [a, b, c, d]
           = Inr (elementwise (rmax_formula a b c d) dp lat eps)"
proof (cases dp)
  case dp: (Scalar p)
  show ?thesis
  proof (cases lat)
    case lat: (Scalar l)
    show ?thesis unfolding dp lat by (cases eps) (simp_all only: rmax_expr_one_array)
  next
    case lat: (Array ls)
    show ?thesis using assms unfolding dp lat
      by (cases eps) (simp_all only: rmax_expr_one_array rmax_expr_two_arrays compatible_simps)
  qed
next
  case dp: (Array ps)
  show ?thesis
  proof (cases lat)
    case lat: (Scalar l)
    show ?thesis using assms unfolding dp lat
      by (cases eps) (simp_all only: rmax_expr_one_array rmax_expr_two_arrays compatible_simps)
  next
    case lat: (Array ls)
    show ?thesis using assms unfolding dp lat
      by (cases eps)
         (simp_all only: rmax_expr_two_arrays rmax_expr_three_arrays compatible_simps)
  qed
qed

lemma rmax_compatible:
  assumes "compatible dp lat eps" and "4 \<le> length coeffs"
  shows "rmax dp lat eps coeffs = ([], rmax_expr dp lat eps coeffs)"
proof -
  from assms(1) have "\<not> (is_array dp \<and> is_array lat \<and> len dp \<noteq> len lat)"
    unfolding compatible_def by blast
  with assms(2) show ?thesis
    unfolding rmax_def by auto
qed

lemma default_coeffs_nth:
  "default_coeffs =
     [default_coeffs ! 0, default_coeffs ! 1, default_coeffs ! 2, default_coeffs ! 3]"
  by (simp add: default_coeffs_def)

lemma length_default_coeffs: "length default_coeffs = 4"
  by (simp add: default_coeffs_def)

lemma rmax_short:
  "length coeffs < 4 \<Longrightarrow>
   rmax dp lat eps coeffs = (rmax_warnings, snd (rmax dp lat eps default_coeffs))"
  by (simp add: rmax_def length_default_coeffs)

subsection \<open>The evaluation formula\<close>

text \<open>
  C5. With a coefficient vector \<open>[a, b, c, d]\<close> and arguments whose arrays have one common
  length, \<^verbatim>\<open>rmax\<close> logs nothing and returns \<open>exp (a + b dp + c dp\<^sup>2 + d lat\<^sup>2 + eps)\<close>,
  computed elementwise. In the degenerate case \<open>dp = lat = eps = 0\<close> with coefficients
  \<open>[a, 0, 0, 0]\<close> the result is \<open>exp a\<close>.
\<close>

theorem rmax_elementwise:
  "(compatible dp lat eps \<longrightarrow>
      rmax dp lat eps [a, b, c, d]
        = ([], Inr (elementwise (rmax_formula a b c d) dp lat eps)))
   \<and> rmax (Scalar 0) (Scalar 0) (Scalar 0) [a, 0, 0, 0] = ([], Inr (Scalar (exp a)))"
proof
  show "compatible dp lat eps \<longrightarrow>
      rmax dp lat eps [a, b, c, d] = ([], Inr (elementwise (rmax_formula a b c d) dp lat eps))"
    by (simp add: rmax_compatible rmax_expr_elementwise)
  have "compatible (Scalar 0) (Scalar 0) (Scalar 0)"
    by (simp add: compatible_def)
  then show "rmax (Scalar 0) (Scalar 0) (Scalar 0) [a, 0, 0, 0] = ([], Inr (Scalar (exp a)))"
    by (simp add: rmax_compatible rmax_expr_tab(1) rmax_formula_def)
qed

theorem rmax_elementwise_witness:
  "compatible (Array [10, 20]) (Array [-15, -20]) (Scalar 0)
   \<and> rmax (Array [10, 20]) (Array [-15, -20]) (Scalar 0) [1, 0, 0, 0]
       = ([], Inr (Array [exp 1, exp 1]))"
proof -
  have c: "compatible (Array [10, 20]) (Array [-15, -20]) (Scalar 0)"
    by (simp add: compatible_def)
  have e: "elementwise (rmax_formula 1 0 0 0) (Array [10, 20]) (Array [-15, -20]) (Scalar 0)
           = Array [exp 1, exp 1]"
    by (simp add: elementwise_def rmax_formula_def upt_rec)
  show ?thesis
    using c rmax_elementwise [of "Array [10, 20]" "Array [-15, -20]" "Scalar 0" 1 0 0 0]
    by (simp only: e simp_thms)
qed

subsection \<open>Too few coefficients\<close>



subsection \<open>Mismatched lengths\<close>

text \<open>
  C7. When \<^verbatim>\<open>dp\<close> and \<^verbatim>\<open>lat\<close> are arrays of different lengths, \<^verbatim>\<open>rmax\<close> raises the
  \<open>AssertionError\<close> of its \<^verbatim>\<open>assert\<close> and computes nothing. When the three observation
  arrays of \<^verbatim>\<open>fitRmax\<close> do not all have the same length, \<^verbatim>\<open>fitRmax\<close> raises the
  \<open>AssertionError\<close> of one of its two \<^verbatim>\<open>assert\<close> statements, before the solver runs.
\<close>

theorem shape_mismatch:
  "(length ps \<noteq> length ls \<longrightarrow> snd (rmax (Array ps) (Array ls) eps coeffs) = Inl AssertionError)
   \<and> (\<not> (length rmw = length dp \<and> length dp = length lat) \<longrightarrow>
        fitRmax ols nfit rmw dp lat = Inl AssertionError)"
  by (simp add: rmax_def fitRmax_def split: prod.splits)

theorem shape_mismatch_witness:
  "length [1, 2 :: real] \<noteq> length [1, 2, 3 :: real]
   \<and> snd (rmax (Array [1, 2]) (Array [1, 2, 3]) (Scalar 0) default_coeffs) = Inl AssertionError
   \<and> \<not> (length [30, 40 :: real] = length [10, 20 :: real] \<and> length [10, 20 :: real] = length [-15 :: real])
   \<and> fitRmax ols_one_row norm_fit_mle [30, 40] [10, 20] [-15] = Inl AssertionError"
  using shape_mismatch [of "[1, 2]" "[1, 2, 3]" "Scalar 0" default_coeffs
          "[30, 40]" "[10, 20]" "[-15]" ols_one_row norm_fit_mle]
  by simp

section \<open>Properties of KDEOrigin\<close>

subsection \<open>The example model\<close>

lemma example_model_init:
  "KDEOrigin_init example_KPDF example_env ''tcrm.ini'' ''Box'' example_limits 1
     (Some [[0, 1, 5], [1, 1, 7], [2, 2, 9]]) = Inr example_model"
  by (simp add: KDEOrigin_init_def arange_def example_limits_def example_KPDF_def
        example_model_def upt_rec)

lemma example_grid:
  "MPDF2DGrid2Array [0, 1, 2] [2, 1 :: real] = [(0, 2), (1, 2), (2, 2), (0, 1), (1, 1), (2, 1)]"
  by (simp add: MPDF2DGrid2Array_def)

lemma example_raw:
  "MPDFBox [[0, 1], [1, 1], [2, 2]] [(0, 2), (1, 2), (2, 2), (0, 1), (1, 1), (2, 1)] (1 / 2)
     = [0, 0, 1, 1, 1, 0]"
  by (simp add: MPDFBox_def)

lemma example_generateKDE:
  "generateKDE example_KPDF example_model None False =
     (example_model\<lparr>self_pdf := Some [[Num 0, Num (1/3)], [Num 0, Num (1/3)], [Num (1/3), Num 0]]\<rparr>,
      Inr (Some ([0, 1, 2], [2, 1], [[Num 0, Num (1/3)], [Num 0, Num (1/3)], [Num (1/3), Num 0]])))"
  by (simp add: generateKDE_def example_model_def example_KPDF_def generatePDF_def truthy_def
      example_grid example_raw reshape_def transpose_arr_def np_div_def upt_rec Let_def)

subsection \<open>The coordinate sequences\<close>

lemma arange_nonzero:
  "step \<noteq> 0 \<Longrightarrow>
   arange start stop step
     = Inr (map (\<lambda>i. start + real i * step) [0..<nat \<lceil>(stop - start) / step\<rceil>])"
  by (simp add: arange_def)

lemma divide_neg_step: "(b - a) / (- s) = (a - b) / (s :: real)"
  using minus_divide_left [of "b - a" s] by simp

lemma index_below_ceiling:
  assumes "i < nat \<lceil>q\<rceil>"
  shows "real i < q"
proof -
  from assms have "int i < \<lceil>q\<rceil>" by linarith
  then have "of_int (int i) < q" by (simp only: less_ceiling_iff)
  then show ?thesis by simp
qed

lemma ascending_steps:
  assumes "0 < step"
  shows "sorted_wrt (<) (map (\<lambda>i. a + real i * step) [0..<n])"
proof -
  have "sorted_wrt (\<lambda>i j. a + real i * step < a + real j * step) [0..<n]"
    using assms by (intro sorted_wrt_mono_rel [OF _ sorted_wrt_upt]) simp
  then show ?thesis by (simp add: sorted_wrt_map)
qed

lemma descending_steps:
  assumes "0 < step"
  shows "sorted_wrt (>) (map (\<lambda>i. a + real i * (- step)) [0..<n])"
proof -
  have "sorted_wrt (\<lambda>i j. a + real i * (- step) > a + real j * (- step)) [0..<n]"
    using assms by (intro sorted_wrt_mono_rel [OF _ sorted_wrt_upt]) simp
  then show ?thesis by (simp add: sorted_wrt_map)
qed

lemma ascending_range:
  assumes "0 < step" and "i < nat \<lceil>(b - a) / step\<rceil>"
  shows "a \<le> a + real i * step" and "a + real i * step < b"
proof -
  show "a \<le> a + real i * step" using assms(1) by simp
  from assms(2) have "real i < (b - a) / step" by (rule index_below_ceiling)
  with assms(1) have "real i * step < b - a" by (simp add: pos_less_divide_eq)
  then show "a + real i * step < b" by simp
qed

lemma descending_range:
  assumes "0 < step" and "i < nat \<lceil>(b - a) / (- step)\<rceil>"
  shows "a + real i * (- step) \<le> a" and "b < a + real i * (- step)"
proof -
  show "a + real i * (- step) \<le> a" using assms(1) by simp
  have "(b - a) / (- step) = (a - b) / step" by (rule divide_neg_step)
  with assms(2) have "real i < (a - b) / step" using index_below_ceiling by metis
  with assms(1) have "real i * step < a - b" by (simp add: pos_less_divide_eq)
  then show "b < a + real i * (- step)" by simp
qed



subsection \<open>Bandwidths that are not positive\<close>

lemma generateKDE_zero_override:
  "generateKDE KPDF self (Some 0) save = generateKDE KPDF self None save"
  by (simp add: generateKDE_def truthy_def)

lemma generatePDF_invalid:
  "bw \<le> 0 \<Longrightarrow> generatePDF KPDF self grid bw = Inl (ValueError (bw_message bw))"
  by (simp add: generatePDF_def)

text \<open>
  C1, as the code has it. \<^verbatim>\<open>_generatePDF\<close> called with a bandwidth that is zero or
  negative raises the \<open>ValueError\<close> whose message says that the bandwidth cannot be negative
  or zero, before any kernel routine is looked up. \<^verbatim>\<open>generateKDE\<close> called with a
  negative bandwidth stores it, raises this error and leaves the stored PDF as it was.
  \<^verbatim>\<open>generateKDE\<close> called with the bandwidth \<open>0\<close> does what it does without a bandwidth
  argument: the test \<^verbatim>\<open>if bw:\<close> takes \<open>0\<close> for no argument, and the stored bandwidth is
  used.
\<close>

theorem invalid_bandwidth:
  "(bw \<le> 0 \<longrightarrow> generatePDF KPDF self grid bw = Inl (ValueError (bw_message bw)))
   \<and> (bw < 0 \<longrightarrow> generateKDE KPDF self (Some bw) save
                    = (self\<lparr>self_bw := bw\<rparr>, Inl (ValueError (bw_message bw))))
   \<and> generateKDE KPDF self (Some 0) save = generateKDE KPDF self None save"
  by (simp add: generatePDF_invalid generateKDE_zero_override)
     (simp add: generateKDE_def truthy_def generatePDF_invalid)

lemma bw_message_example:
  "bw_message (- 2) = ''bw = -2. Bandwidth cannot be negative or zero''"
  by (simp add: bw_message_def fmt_d_def digit_def)

theorem invalid_bandwidth_witness:
  "(- 2 :: real) \<le> 0
   \<and> generatePDF example_KPDF example_model [] (- 2)
       = Inl (ValueError ''bw = -2. Bandwidth cannot be negative or zero'')
   \<and> (- 2 :: real) < 0
   \<and> generateKDE example_KPDF example_model (Some (- 2)) False
       = (example_model\<lparr>self_bw := - 2\<rparr>,
          Inl (ValueError ''bw = -2. Bandwidth cannot be negative or zero''))"
  using invalid_bandwidth [of "- 2" example_KPDF example_model "[]" False]
  by (simp add: bw_message_example)

text \<open>
  C1, as it is stated, fails for the bandwidth \<open>0\<close>: on the example model, whose stored
  bandwidth is one half, \<^verbatim>\<open>generateKDE(bw=0)\<close> returns a PDF.
\<close>

theorem zero_override_counterexample:
  "(0 :: real) \<le> 0 \<and>
   generateKDE example_KPDF example_model (Some 0) False =
     (example_model\<lparr>self_pdf :=
        Some [[Num 0, Num (1 / 3)], [Num 0, Num (1 / 3)], [Num (1 / 3), Num 0]]\<rparr>,
      Inr (Some ([0, 1, 2], [2, 1],
                 [[Num 0, Num (1 / 3)], [Num 0, Num (1 / 3)], [Num (1 / 3), Num 0]])))"
  by (simp add: generateKDE_zero_override example_generateKDE)

subsection \<open>The CDF needs a PDF\<close>

lemma init_pdf_None:
  "KDEOrigin_init KPDF env cf kt gl st ll = Inr self \<Longrightarrow> self_pdf self = None"
  by (auto simp: KDEOrigin_init_def bind_err_def Let_def split: sum.splits option.splits)

lemma generateKDE_fails_early:
  assumes "generatePDF KPDF (self\<lparr>self_bw := effective_bw self bw\<rparr>)
             (MPDF2DGrid2Array (self_x self) (self_y self)) (effective_bw self bw) = Inl e"
  shows "generateKDE KPDF self bw save = (self\<lparr>self_bw := effective_bw self bw\<rparr>, Inl e)"
proof -
  have s1: "(if truthy bw then self\<lparr>self_bw := the bw\<rparr> else self)
              = self\<lparr>self_bw := effective_bw self bw\<rparr>"
    by (simp add: effective_bw_def)
  show ?thesis
    unfolding generateKDE_def s1 Let_def using assms by simp
qed

text \<open>
  C4. On an instance that has no attribute \<^verbatim>\<open>pdf\<close> yet, \<^verbatim>\<open>generateCdf\<close> raises the
  \<open>AttributeError\<close> of the missing attribute \<^verbatim>\<open>pdf\<close>, and the instance is unchanged: no
  CDF is stored or returned. This is the case of every instance as the constructor returns
  it, and it is still the case after a call of \<^verbatim>\<open>generateKDE\<close> that raised in
  \<^verbatim>\<open>_generatePDF\<close>, on the bandwidth or on the name of the kernel: such a call has
  stored no PDF.
\<close>

theorem cdf_requires_pdf:
  "(self_pdf self = None \<longrightarrow> generateCdf cdf2d self save = (self, Inl (AttributeError ''pdf'')))
   \<and> (KDEOrigin_init KPDF env cf kt gl st ll = Inr self \<longrightarrow>
        generateCdf cdf2d self save = (self, Inl (AttributeError ''pdf'')))
   \<and> (self_pdf self = None
        \<and> generatePDF KPDF (self\<lparr>self_bw := effective_bw self bw\<rparr>)
             (MPDF2DGrid2Array (self_x self) (self_y self)) (effective_bw self bw) = Inl e \<longrightarrow>
        generateKDE KPDF self bw save' = (self\<lparr>self_bw := effective_bw self bw\<rparr>, Inl e)
        \<and> generateCdf cdf2d (fst (generateKDE KPDF self bw save')) save
            = (self\<lparr>self_bw := effective_bw self bw\<rparr>, Inl (AttributeError ''pdf'')))"
proof (intro conjI impI)
  show "generateCdf cdf2d self save = (self, Inl (AttributeError ''pdf''))"
    if "self_pdf self = None"
    using that by (simp add: generateCdf_def)
  show "generateCdf cdf2d self save = (self, Inl (AttributeError ''pdf''))"
    if "KDEOrigin_init KPDF env cf kt gl st ll = Inr self"
    using init_pdf_None [OF that] by (simp add: generateCdf_def)
  assume a: "self_pdf self = None
        \<and> generatePDF KPDF (self\<lparr>self_bw := effective_bw self bw\<rparr>)
             (MPDF2DGrid2Array (self_x self) (self_y self)) (effective_bw self bw) = Inl e"
  then show g: "generateKDE KPDF self bw save' = (self\<lparr>self_bw := effective_bw self bw\<rparr>, Inl e)"
    by (intro generateKDE_fails_early) simp
  show "generateCdf cdf2d (fst (generateKDE KPDF self bw save')) save
            = (self\<lparr>self_bw := effective_bw self bw\<rparr>, Inl (AttributeError ''pdf''))"
    unfolding g using a by (simp add: generateCdf_def)
qed

theorem cdf_requires_pdf_witness:
  "self_pdf example_model = None
   \<and> KDEOrigin_init example_KPDF example_env ''tcrm.ini'' ''Box'' example_limits 1
        (Some [[0, 1, 5], [1, 1, 7], [2, 2, 9]]) = Inr example_model
   \<and> generateCdf (\<lambda>x y z. z) example_model False
       = (example_model, Inl (AttributeError ''pdf''))
   \<and> generateKDE example_KPDF example_model (Some (- 2)) False
       = (example_model\<lparr>self_bw := - 2\<rparr>,
          Inl (ValueError ''bw = -2. Bandwidth cannot be negative or zero''))
   \<and> generateCdf (\<lambda>x y z. z)
        (fst (generateKDE example_KPDF example_model (Some (- 2)) False)) False
       = (example_model\<lparr>self_bw := - 2\<rparr>, Inl (AttributeError ''pdf''))"
proof -
  have n: "self_pdf example_model = None" by (simp add: example_model_def)
  have b: "effective_bw example_model (Some (- 2)) = - 2"
    by (simp add: effective_bw_def truthy_def)
  have p: "generatePDF example_KPDF (example_model\<lparr>self_bw := - 2\<rparr>)
             (MPDF2DGrid2Array (self_x example_model) (self_y example_model)) (- 2)
           = Inl (ValueError ''bw = -2. Bandwidth cannot be negative or zero'')"
    by (simp add: generatePDF_invalid bw_message_example)
  from cdf_requires_pdf [of example_model "\<lambda>x y z. z" False example_KPDF example_env
          "''tcrm.ini''" "''Box''" example_limits 1 "Some [[0, 1, 5], [1, 1, 7], [2, 2, 9]]"
          "Some (- 2)" "ValueError ''bw = -2. Bandwidth cannot be negative or zero''" False]
  show ?thesis
    unfolding b using n p example_model_init by blast
qed

subsection \<open>The bandwidth argument replaces the stored bandwidth\<close>

lemma generateKDE_bw:
  "self_bw (fst (generateKDE KPDF self bw save)) = effective_bw self bw"
  by (simp add: generateKDE_def effective_bw_def Let_def split: sum.splits option.splits)

lemma generateCdf_bw:
  "self_bw (fst (generateCdf cdf2d self save)) = self_bw self"
  by (simp add: generateCdf_def Let_def split: option.splits)

lemma invoke_no_override:
  "no_override c \<Longrightarrow> self_bw (invoke KPDF cdf2d self c) = self_bw self"
  by (cases c) (simp_all add: generateKDE_bw generateCdf_bw effective_bw_def)

lemma foldl_invoke_bw:
  "\<forall>c \<in> set calls. no_override c \<Longrightarrow>
   self_bw (foldl (invoke KPDF cdf2d) self calls) = self_bw self"
  by (induction calls arbitrary: self) (simp_all add: invoke_no_override)

lemma generateKDE_stored:
  "generateKDE KPDF self None save = generateKDE KPDF self (Some (self_bw self)) save"
  by (simp add: generateKDE_def truthy_def)

text \<open>
  C10. After \<^verbatim>\<open>generateKDE\<close> has been called with a bandwidth other than \<open>0\<close>, and after
  any further calls of \<^verbatim>\<open>generateKDE\<close> without a bandwidth (or with \<open>0\<close>) and of
  \<^verbatim>\<open>generateCdf\<close>, whether they returned or raised, the stored bandwidth is the one
  that was passed, and a call of \<^verbatim>\<open>generateKDE\<close> without a bandwidth does what a call
  with that bandwidth does.
\<close>

theorem bandwidth_override_persists:
  assumes "bw \<noteq> 0" and "\<forall>c \<in> set calls. no_override c"
  shows "self_bw (foldl (invoke KPDF cdf2d) (fst (generateKDE KPDF self (Some bw) save)) calls) = bw
    \<and> generateKDE KPDF
         (foldl (invoke KPDF cdf2d) (fst (generateKDE KPDF self (Some bw) save)) calls) None save'
      = generateKDE KPDF
         (foldl (invoke KPDF cdf2d) (fst (generateKDE KPDF self (Some bw) save)) calls) (Some bw) save'"
proof -
  let ?s = "foldl (invoke KPDF cdf2d) (fst (generateKDE KPDF self (Some bw) save)) calls"
  have "self_bw ?s = self_bw (fst (generateKDE KPDF self (Some bw) save))"
    using assms(2) by (rule foldl_invoke_bw)
  also have "\<dots> = bw"
    using assms(1) by (simp add: generateKDE_bw effective_bw_def truthy_def)
  finally have 1: "self_bw ?s = bw" .
  with generateKDE_stored [of KPDF ?s save'] show ?thesis by simp
qed


theorem bandwidth_override_persists_witness:
  "(2 :: real) \<noteq> 0
   \<and> list_all no_override [CallGenerateCdf False, CallGenerateKDE None False,
                             CallGenerateKDE (Some 0) False]
   \<and> self_bw (foldl (invoke example_KPDF (\<lambda>x y z. z))
                (fst (generateKDE example_KPDF example_model (Some 2) False))
                [CallGenerateCdf False, CallGenerateKDE None False,
                 CallGenerateKDE (Some 0) False]) = 2"
proof -
  have h: "(2 :: real) \<noteq> 0"
    "\<forall>c \<in> set [CallGenerateCdf False, CallGenerateKDE None False,
                 CallGenerateKDE (Some 0) False]. no_override c"
    by (simp_all add: truthy_def)
  from bandwidth_override_persists [OF h, of example_KPDF "\<lambda>x y z. z" example_model False False]
  show ?thesis using h by (simp only: list_all_iff) blast
qed

subsection \<open>Contour levels\<close>

lemma decade:
  assumes "0 < (m :: real)"
  shows "10 powi \<lfloor>log 10 m\<rfloor> \<le> m" and "m < 10 * 10 powi \<lfloor>log 10 m\<rfloor>"
proof -
  have "10 powr real_of_int \<lfloor>log 10 m\<rfloor> \<le> m \<and> m < 10 powr real_of_int (\<lfloor>log 10 m\<rfloor> + 1)"
    using floor_log_eq_powr_iff [of m 10 "\<lfloor>log 10 m\<rfloor>"] assms by simp
  then have "10 powi \<lfloor>log 10 m\<rfloor> \<le> m \<and> m < 10 powi (\<lfloor>log 10 m\<rfloor> + 1)"
    by (simp only: powr_real_of_int' [of 10, simplified])
  then show "10 powi \<lfloor>log 10 m\<rfloor> \<le> m" and "m < 10 * 10 powi \<lfloor>log 10 m\<rfloor>"
    by (simp_all add: power_int_add_1 mult.commute)
qed

lemma significand_range:
  assumes "0 < (m :: real)"
  shows "1 \<le> m * 10 powi (- \<lfloor>log 10 m\<rfloor>)" and "m * 10 powi (- \<lfloor>log 10 m\<rfloor>) < 10"
proof -
  have p: "0 < (10 :: real) powi \<lfloor>log 10 m\<rfloor>" by simp
  have e: "m * 10 powi (- \<lfloor>log 10 m\<rfloor>) = m / 10 powi \<lfloor>log 10 m\<rfloor>"
    by (simp add: power_int_minus divide_inverse)
  show "1 \<le> m * 10 powi (- \<lfloor>log 10 m\<rfloor>)"
    unfolding e using decade(1) [OF assms] p by (simp add: pos_le_divide_eq)
  show "m * 10 powi (- \<lfloor>log 10 m\<rfloor>) < 10"
    unfolding e using decade(2) [OF assms] p by (simp add: pos_divide_less_eq)
qed

lemma find_step:
  assumes "1 \<le> s"
  shows "find (\<lambda>opt. s / opt > min_lvls) lvls_options = Some (pick s)"
  using assms by (simp add: min_lvls_def lvls_options_def pick_def)

lemma pick_props:
  assumes "1 \<le> s"
  shows "pick s \<in> set lvls_options" and "6 < s / pick s" and "0 < pick s"
    and "\<forall>t \<in> set lvls_options. 6 < s / t \<longrightarrow> t \<le> pick s"
  using assms by (auto simp: lvls_options_def pick_def)

lemma floor_log10_37: "\<lfloor>log 10 (37 :: real)\<rfloor> = 1"
  by (subst floor_log_eq_powr_iff) simp_all

lemma contour_37: "contour_levels (Num 37) = Inr (1, 1 / 2, [0, 5, 10, 15, 20, 25, 30, 35])"
  by (simp add: contour_levels_def floor_log10_37 min_lvls_def lvls_options_def arange_def upt_rec)


lemma contour_levels_pos:
  assumes "0 < m"
  shows "contour_levels (Num m) =
     Inr (\<lfloor>log 10 m\<rfloor>, pick (m * 10 powi (- \<lfloor>log 10 m\<rfloor>)),
          map (\<lambda>i. 0 + real i * (pick (m * 10 powi (- \<lfloor>log 10 m\<rfloor>)) * 10 powi \<lfloor>log 10 m\<rfloor>))
            [0..<nat \<lceil>(m - 0) / (pick (m * 10 powi (- \<lfloor>log 10 m\<rfloor>)) * 10 powi \<lfloor>log 10 m\<rfloor>)\<rceil>])"
proof -
  let ?e = "\<lfloor>log 10 m\<rfloor>"
  let ?s = "m * 10 powi (- ?e)"
  have s1: "1 \<le> ?s" using assms by (rule significand_range)
  have "0 < pick ?s * 10 powi ?e"
    using pick_props(3) [OF s1] by simp
  then have st: "pick ?s * 10 powi ?e \<noteq> 0" by (rule less_imp_neq [symmetric])
  show ?thesis
    using assms
    by (simp only: contour_levels_def Let_def xreal.case find_step [OF s1] option.case
          arange_nonzero [OF st] bind_err_Inr) simp
qed

lemma level_count:
  assumes "0 < m"
  shows "(m - 0) / (pick (m * 10 powi (- \<lfloor>log 10 m\<rfloor>)) * 10 powi \<lfloor>log 10 m\<rfloor>)
           = (m * 10 powi (- \<lfloor>log 10 m\<rfloor>)) / pick (m * 10 powi (- \<lfloor>log 10 m\<rfloor>))"
  by (simp add: power_int_minus divide_inverse mult_ac)

lemma many_levels:
  assumes "6 < (q :: real)"
  shows "6 < nat \<lceil>q\<rceil>"
proof -
  from assms have "6 < \<lceil>q\<rceil>" by (simp add: less_ceiling_iff)
  then show ?thesis by linarith
qed




subsection \<open>Reshaping and transposing\<close>

lemma concat_chunks:
  "length v = m * n \<Longrightarrow> concat (map (\<lambda>r. take n (drop (r * n) v)) [0..<m]) = v"
proof (induction m arbitrary: v)
  case 0
  then show ?case by simp
next
  case (Suc m)
  have len: "length (drop n v) = m * n" using Suc.prems by simp
  have "[0..<Suc m] = 0 # map Suc [0..<m]"
    by (simp add: upt_conv_Cons map_Suc_upt del: upt_Suc)
  then have "concat (map (\<lambda>r. take n (drop (r * n) v)) [0..<Suc m])
      = take n v @ concat (map (\<lambda>r. take n (drop (Suc r * n) v)) [0..<m])"
    by (simp add: comp_def del: upt_Suc)
  also have "(\<lambda>r. take n (drop (Suc r * n) v)) = (\<lambda>r. take n (drop (r * n) (drop n v)))"
    by (simp add: add.commute)
  also have "concat (map (\<lambda>r. take n (drop (r * n) (drop n v))) [0..<m]) = drop n v"
    using len by (rule Suc.IH)
  finally show ?case by simp
qed

lemma chunk_length:
  assumes "length v = m * n" and "r < m"
  shows "length (take n (drop (r * n) v)) = n"
proof -
  from assms(2) obtain k where m: "m = Suc (r + k)"
    using less_imp_Suc_add by blast
  have "length v - r * n = n + k * n"
    unfolding assms(1) m by (simp add: add_mult_distrib)
  then show ?thesis by simp
qed

lemma reshape_rows:
  assumes "0 < n" and "length v = m * n"
  shows "\<exists>rows. reshape v n = Inr rows \<and> concat rows = v \<and> length rows = m
           \<and> (\<forall>r \<in> set rows. length r = n)"
proof -
  let ?rows = "map (\<lambda>r. take n (drop (r * n) v)) [0..<m]"
  have d: "length v div n = m" unfolding assms(2) using assms(1) by simp
  have "n \<noteq> 0" using assms(1) by simp
  then have 1: "reshape v n = Inr ?rows"
    unfolding reshape_def d by (simp add: assms(2))
  have 2: "concat ?rows = v" using assms(2) by (rule concat_chunks)
  have 3: "\<forall>r \<in> set ?rows. length r = n"
  proof
    fix r assume "r \<in> set ?rows"
    then obtain i where "i < m" and "r = take n (drop (i * n) v)" by auto
    then show "length r = n" using chunk_length [OF assms(2)] by simp
  qed
  have 4: "length ?rows = m" by simp
  from 1 2 3 4 show ?thesis by blast
qed

lemma sum_list_columns:
  fixes f :: "'a \<Rightarrow> real"
  assumes "\<forall>r \<in> set rows. length r = n"
  shows "sum_list (map (\<lambda>j. sum_list (map (\<lambda>r. f (r ! j)) rows)) [0..<n])
           = sum_list (map (\<lambda>r. sum_list (map f r)) rows)"
  using assms
proof (induction rows)
  case Nil
  then show ?case by simp
next
  case (Cons r rows)
  then have len: "length r = n" by simp
  have "map (\<lambda>j. f (r ! j)) [0..<length r] = map f (map ((!) r) [0..<length r])"
    by (simp add: comp_def)
  also have "\<dots> = map f r" by (simp only: map_nth)
  finally have "sum_list (map (\<lambda>j. f (r ! j)) [0..<n]) = sum_list (map f r)"
    unfolding len by simp
  with Cons show ?case by (simp add: sum_list_addf)
qed

lemma sum_list_concat_map:
  fixes f :: "'a \<Rightarrow> real"
  shows "sum_list (map f (concat xss)) = sum_list (map (\<lambda>xs. sum_list (map f xs)) xss)"
  by (induction xss) simp_all

lemma sum_list_transpose:
  fixes f :: "'a \<Rightarrow> real"
  assumes "\<forall>r \<in> set rows. length r = n"
  shows "sum_list (map f (concat (transpose_arr rows n))) = sum_list (map f (concat rows))"
proof -
  have "sum_list (map f (concat (transpose_arr rows n)))
      = sum_list (map (\<lambda>j. sum_list (map (\<lambda>r. f (r ! j)) rows)) [0..<n])"
    by (simp add: transpose_arr_def sum_list_concat_map comp_def)
  also have "\<dots> = sum_list (map (\<lambda>r. sum_list (map f r)) rows)"
    using assms by (rule sum_list_columns)
  also have "\<dots> = sum_list (map f (concat rows))"
    by (simp add: sum_list_concat_map)
  finally show ?thesis .
qed

lemma set_transpose:
  assumes "\<forall>r \<in> set rows. length r = n"
  shows "set (concat (transpose_arr rows n)) \<subseteq> set (concat rows)"
proof
  fix v assume "v \<in> set (concat (transpose_arr rows n))"
  then obtain j r where "j < n" and r: "r \<in> set rows" and v: "v = r ! j"
    by (auto simp: transpose_arr_def)
  with assms have "j < length r" by simp
  then have "v \<in> set r" unfolding v by (rule nth_mem)
  with r show "v \<in> set (concat rows)" by auto
qed

lemma transpose_shape:
  "length (transpose_arr rows n) = n"
  "\<forall>c \<in> set (transpose_arr rows n). length c = length rows"
  by (auto simp: transpose_arr_def)

lemma foldl_xadd_Num:
  "\<forall>v \<in> set vs. \<exists>a. v = Num a \<Longrightarrow> foldl xadd (Num b) vs = Num (b + sum_list (map xval vs))"
proof (induction vs arbitrary: b)
  case Nil
  then show ?case by simp
next
  case (Cons v vs)
  then obtain a where v: "v = Num a" by auto
  from Cons.prems have "\<forall>v \<in> set vs. \<exists>a. v = Num a" by simp
  then have "foldl xadd (Num (b + a)) vs = Num (b + a + sum_list (map xval vs))"
    by (rule Cons.IH)
  then show ?case unfolding v by (simp add: add.assoc)
qed

lemma np_sum_Num:
  "\<forall>v \<in> set vs. \<exists>a. v = Num a \<Longrightarrow> np_sum vs = Num (sum_list (map xval vs))"
  by (simp add: np_sum_def foldl_xadd_Num)

lemma sum_list_divide:
  fixes vs :: "real list"
  shows "sum_list (map (\<lambda>v. v / c) vs) = sum_list vs / c"
  by (induction vs) (simp_all add: add_divide_distrib)


subsection \<open>The normalised PDF\<close>

lemma generateKDE_stores:
  assumes "generatePDF KPDF (self\<lparr>self_bw := effective_bw self bw\<rparr>)
             (MPDF2DGrid2Array (self_x self) (self_y self)) (effective_bw self bw) = Inr raw"
    and "reshape (map (\<lambda>v. np_div v (sum_list raw)) raw) (length (self_x self)) = Inr rows"
  shows "generateKDE KPDF self bw False
           = (self\<lparr>self_bw := effective_bw self bw,
                    self_pdf := Some (transpose_arr rows (length (self_x self)))\<rparr>,
              Inr (Some (self_x self, self_y self, transpose_arr rows (length (self_x self)))))"
    and "self_pdf (fst (generateKDE KPDF self bw True))
           = Some (transpose_arr rows (length (self_x self)))"
proof -
  have s1: "(if truthy bw then self\<lparr>self_bw := the bw\<rparr> else self)
              = self\<lparr>self_bw := effective_bw self bw\<rparr>"
    by (simp add: effective_bw_def)
  show "generateKDE KPDF self bw False
           = (self\<lparr>self_bw := effective_bw self bw,
                    self_pdf := Some (transpose_arr rows (length (self_x self)))\<rparr>,
              Inr (Some (self_x self, self_y self, transpose_arr rows (length (self_x self)))))"
    unfolding generateKDE_def s1 Let_def using assms by simp
  show "self_pdf (fst (generateKDE KPDF self bw True))
           = Some (transpose_arr rows (length (self_x self)))"
    unfolding generateKDE_def s1 Let_def using assms by (simp split: option.splits)
qed


section \<open>The fit and the number of observations\<close>

lemma design_matrix_built:
  assumes "length dp = length lat"
  shows "add_constant (column_stack dp (map2 (*) dp dp) (map2 (*) lat lat)) = design_matrix dp lat"
  using assms
  by (induction dp lat rule: list_induct2)
     (simp_all add: add_constant_def column_stack_def design_matrix_def)





end
